theory Spec2Isabelle
  imports Main "HOL-Library.Word"
begin

section \<open>JavaScript strings\<close>

text \<open>
  A JavaScript string is a sequence of 16-bit code units. \<open>js\<close> turns an ASCII
  literal into such a sequence.
\<close>

type_synonym jsstring = "16 word list"

definition js :: "string \<Rightarrow> jsstring" where
  "js s = map (\<lambda>c. of_nat (of_char c)) s"

text \<open>
  \<open>String.prototype.trim\<close> removes white space and line terminators from both ends:
  TAB, LF, VT, FF, CR, SPACE, NBSP, the other space separators of Unicode, LS, PS and
  the byte order mark.
\<close>

definition isWhiteSpace :: "16 word \<Rightarrow> bool" where
  "isWhiteSpace c \<longleftrightarrow>
     c = 0x9 \<or> c = 0xA \<or> c = 0xB \<or> c = 0xC \<or> c = 0xD \<or> c = 0x20 \<or> c = 0xA0 \<or>
     c = 0x1680 \<or> (0x2000 \<le> c \<and> c \<le> 0x200A) \<or> c = 0x2028 \<or> c = 0x2029 \<or>
     c = 0x202F \<or> c = 0x205F \<or> c = 0x3000 \<or> c = 0xFEFF"

definition trim :: "jsstring \<Rightarrow> jsstring" where
  "trim s = rev (dropWhile isWhiteSpace (rev (dropWhile isWhiteSpace s)))"

text \<open>\<open>!s\<close> on a string: only the empty string is falsy.\<close>

definition falsy :: "jsstring \<Rightarrow> bool" where
  "falsy s \<longleftrightarrow> s = []"

text \<open>\<open>!x\<close> on an optional string: \<open>undefined\<close> and the empty string are falsy.\<close>

definition falsy_opt :: "jsstring option \<Rightarrow> bool" where
  "falsy_opt x \<longleftrightarrow> (case x of None \<Rightarrow> True | Some s \<Rightarrow> falsy s)"

text \<open>\<open>a || b\<close> on strings.\<close>

definition or_else :: "jsstring \<Rightarrow> jsstring \<Rightarrow> jsstring" where
  "or_else a b = (if falsy a then b else a)"

text \<open>\<open>s.split(sep)\<close> for a one-unit separator, and \<open>xs[i]\<close> (\<open>undefined\<close> out of range).\<close>

fun split :: "'a \<Rightarrow> 'a list \<Rightarrow> 'a list list" where
  "split sep [] = [[]]"
| "split sep (x # xs) =
     (if x = sep then [] # split sep xs
      else (case split sep xs of [] \<Rightarrow> [[x]] | p # ps \<Rightarrow> (x # p) # ps))"

definition index :: "'a list \<Rightarrow> nat \<Rightarrow> 'a option" where
  "index xs i = (if i < length xs then Some (xs ! i) else None)"

definition startsWith :: "jsstring \<Rightarrow> jsstring \<Rightarrow> bool" where
  "startsWith s p \<longleftrightarrow> take (length p) s = p"

section \<open>The backend: tables, policies, remote calls\<close>

type_synonym uuid = jsstring

text \<open>Instants of the server's and the client's clocks.\<close>

type_synonym timestamp = nat

datatype message_type = Text | Image | Voice

text \<open>Table \<open>public.chat_messages\<close>; the client's \<open>Message\<close> interface is a row of it.\<close>

record chat_message =
  id :: uuid
  session_id :: uuid
  user_id :: uuid
  content :: jsstring
  message_type :: message_type
  ai_response :: "jsstring option"
  image_url :: "jsstring option"
  created_at :: timestamp

text \<open>Table \<open>public.sessions\<close>; the client's \<open>Session\<close> interface is a row of it.\<close>

record session =
  s_id :: uuid
  s_user_id :: uuid
  s_name :: jsstring
  s_system_prompt :: "jsstring option"
  s_created_at :: timestamp
  s_updated_at :: timestamp

record backend =
  chat_messages :: "chat_message list"
  sessions :: "session list"

text \<open>
  What the outside decides during one handler run: who is signed in, what the AI
  function answers (an error, or data whose \<open>response\<close> field is the reply), which
  store calls report an error, and the values the server assigns
  (\<open>gen_random_uuid()\<close>, \<open>now()\<close>) and the client clock (\<open>new Date()\<close>).
\<close>

datatype 'a response = Error | Data 'a

record env =
  auth_user :: "uuid option"
  ai :: "jsstring response"
  insert_error :: bool
  update_error :: bool
  select_error :: bool
  gen_random_uuid :: uuid
  now :: timestamp
  date_now :: timestamp

text \<open>The body sent to the \<open>gemini-chat\<close> function.\<close>

record gemini_body =
  b_message :: jsstring
  b_sessionId :: uuid
  b_messageType :: message_type
  b_imageData :: "jsstring option"
  b_systemPrompt :: jsstring

text \<open>Every request that leaves the client.\<close>

datatype call =
    GetUser
  | InvokeGeminiChat gemini_body
  | InsertChatMessage uuid uuid jsstring message_type jsstring
  | UpdateSession uuid timestamp
  | SelectChatMessages uuid bool
  | SelectSessions bool
  | InsertSession jsstring jsstring uuid

datatype variant = Default | Destructive

record toast =
  title :: jsstring
  description :: jsstring
  variant :: variant

text \<open>
  A component instance in its surroundings: its React state, the backend, the toasts
  shown, the requests sent and the lines written by \<open>console.error\<close>.
\<close>

record 'v world =
  view :: 'v
  db :: backend
  toasts :: "toast list"
  calls :: "call list"
  console :: "jsstring list"

definition show_toast :: "toast \<Rightarrow> 'v world \<Rightarrow> 'v world" where
  "show_toast t w = w\<lparr>toasts := toasts w @ [t]\<rparr>"

definition request :: "call \<Rightarrow> 'v world \<Rightarrow> 'v world" where
  "request c w = w\<lparr>calls := calls w @ [c]\<rparr>"

definition console_error :: "jsstring \<Rightarrow> 'v world \<Rightarrow> 'v world" where
  "console_error l w = w\<lparr>console := console w @ [l]\<rparr>"

text \<open>\<open>.order(col, { ascending })\<close> on a result set.\<close>

definition order_by :: "('r \<Rightarrow> timestamp) \<Rightarrow> bool \<Rightarrow> 'r list \<Rightarrow> 'r list" where
  "order_by col ascending rows =
     (if ascending then sort_key col rows else rev (sort_key col rows))"

text \<open>
  \<open>select * from chat_messages where session_id = sid order by created_at\<close>, under the
  policy "Users can view their own messages" (\<open>auth.uid() = user_id\<close>).
\<close>

definition select_chat_messages :: "backend \<Rightarrow> uuid option \<Rightarrow> uuid \<Rightarrow> bool \<Rightarrow> chat_message list" where
  "select_chat_messages b uid sid ascending =
     order_by created_at ascending
       (filter (\<lambda>r. Some (user_id r) = uid \<and> session_id r = sid) (chat_messages b))"

text \<open>
  \<open>select * from sessions order by updated_at\<close>, under the policy "Users can view their
  own sessions".
\<close>

definition select_sessions :: "backend \<Rightarrow> uuid option \<Rightarrow> bool \<Rightarrow> session list" where
  "select_sessions b uid ascending =
     order_by s_updated_at ascending (filter (\<lambda>r. Some (s_user_id r) = uid) (sessions b))"

text \<open>
  The insert into \<open>chat_messages\<close>: \<open>id\<close> and \<open>created_at\<close> take their column defaults,
  \<open>image_url\<close> is not given and stays null.
\<close>

definition insert_chat_message ::
  "env \<Rightarrow> uuid \<Rightarrow> uuid \<Rightarrow> jsstring \<Rightarrow> message_type \<Rightarrow> jsstring \<Rightarrow> backend \<Rightarrow> backend" where
  "insert_chat_message e sid uid c k reply b =
     b\<lparr>chat_messages := chat_messages b @
        [\<lparr>id = gen_random_uuid e, session_id = sid, user_id = uid, content = c,
          message_type = k, ai_response = Some reply, image_url = None,
          created_at = now e\<rparr>]\<rparr>"

text \<open>
  \<open>update sessions set updated_at = t where id = sid\<close>, under the policy "Users can
  update their own sessions"; the trigger \<open>update_sessions_updated_at\<close> then overwrites
  the column with the server's \<open>now()\<close>.
\<close>

definition update_session :: "env \<Rightarrow> uuid option \<Rightarrow> uuid \<Rightarrow> timestamp \<Rightarrow> backend \<Rightarrow> backend" where
  "update_session e uid sid t b =
     b\<lparr>sessions := map (\<lambda>r. if s_id r = sid \<and> Some (s_user_id r) = uid
                              then r\<lparr>s_updated_at := now e\<rparr> else r) (sessions b)\<rparr>"

text \<open>
  The insert into \<open>sessions\<close>: \<open>id\<close>, \<open>created_at\<close> and \<open>updated_at\<close> take their column
  defaults; \<open>system_prompt\<close> is given by the client, so its column default is not used.
\<close>

definition insert_session :: "env \<Rightarrow> jsstring \<Rightarrow> jsstring \<Rightarrow> uuid \<Rightarrow> backend \<Rightarrow> backend" where
  "insert_session e n p uid b =
     b\<lparr>sessions := sessions b @
        [\<lparr>s_id = gen_random_uuid e, s_user_id = uid, s_name = n, s_system_prompt = Some p,
          s_created_at = now e, s_updated_at = now e\<rparr>]\<rparr>"

section \<open>The conversation view (\<open>ChatInterface\<close>)\<close>

text \<open>The component's React state, with the initial values given to \<open>useState\<close>.\<close>

record chat_view =
  messages :: "chat_message list"
  currentMessage :: jsstring
  loading :: bool
  sessionName :: jsstring
  systemPrompt :: jsstring
  isRecording :: bool

definition initial_chat_view :: chat_view where
  "initial_chat_view =
     \<lparr>messages = [], currentMessage = [], loading = False, sessionName = [],
      systemPrompt = [], isRecording = False\<rparr>"

text \<open>
  Each run of the component function binds \<open>sessionId\<close>, \<open>loading\<close>, \<open>systemPrompt\<close> and
  \<open>currentMessage\<close> as constants, and the handlers defined in that run (\<open>sendMessage\<close>,
  \<open>fetchMessages\<close>, \<open>handlePasteImage\<close>) read those bindings: a handler reads the state
  of the render that created it, and writes the state through the setters.
\<close>

record chat_closure =
  c_sessionId :: uuid
  c_loading :: bool
  c_systemPrompt :: jsstring
  c_currentMessage :: jsstring

definition render :: "uuid \<Rightarrow> chat_view \<Rightarrow> chat_closure" where
  "render sid v =
     \<lparr>c_sessionId = sid, c_loading = loading v, c_systemPrompt = systemPrompt v,
      c_currentMessage = currentMessage v\<rparr>"

definition setMessages :: "chat_message list \<Rightarrow> chat_view world \<Rightarrow> chat_view world" where
  "setMessages ms w = w\<lparr>view := (view w)\<lparr>messages := ms\<rparr>\<rparr>"

definition setCurrentMessage :: "jsstring \<Rightarrow> chat_view world \<Rightarrow> chat_view world" where
  "setCurrentMessage s w = w\<lparr>view := (view w)\<lparr>currentMessage := s\<rparr>\<rparr>"

definition setLoading :: "bool \<Rightarrow> chat_view world \<Rightarrow> chat_view world" where
  "setLoading b w = w\<lparr>view := (view w)\<lparr>loading := b\<rparr>\<rparr>"

text \<open>
  \<open>fetchMessages\<close>: one select, ascending by \<open>created_at\<close>; on an error the catch block
  only logs, otherwise \<open>setMessages\<close> replaces the list by the rows returned (a select
  that succeeds returns a list, so \<open>data || []\<close> is that list).
\<close>

definition fetchMessages :: "chat_closure \<Rightarrow> env \<Rightarrow> chat_view world \<Rightarrow> chat_view world" where
  "fetchMessages cl e w =
     (let w1 = request (SelectChatMessages (c_sessionId cl) True) w in
      if select_error e then console_error (js ''Error fetching messages:'') w1
      else setMessages (select_chat_messages (db w1) (auth_user e) (c_sessionId cl) True) w1)"

text \<open>How a \<open>try\<close> block ends, with the world it has reached.\<close>

datatype 'w completion = Throw 'w | Normal 'w

definition message_sent :: toast where
  "message_sent =
     \<lparr>title = js ''Message sent'', description = js ''AI response generated successfully'',
      variant = Default\<rparr>"

definition failed_to_send :: toast where
  "failed_to_send =
     \<lparr>title = js ''Error'', description = js ''Failed to send message'',
      variant = Destructive\<rparr>"

text \<open>The guard on the first line of \<open>sendMessage\<close>.\<close>

definition send_guard :: "chat_closure \<Rightarrow> jsstring \<Rightarrow> jsstring option \<Rightarrow> bool" where
  "send_guard cl content' imageData \<longleftrightarrow>
     (falsy (trim content') \<and> falsy_opt imageData) \<or> c_loading cl"

text \<open>
  \<open>sendMessage\<close> up to its first \<open>await\<close>: the guard returns, or \<open>setLoading(true)\<close>
  runs and the call is in flight. \<open>None\<close> is the early return.
\<close>

definition sendMessage_begin ::
  "chat_closure \<Rightarrow> jsstring \<Rightarrow> message_type \<Rightarrow> jsstring option \<Rightarrow> chat_view world
     \<Rightarrow> chat_view world option" where
  "sendMessage_begin cl content' messageType imageData w =
     (if send_guard cl content' imageData then None else Some (setLoading True w))"

text \<open>
  The \<open>try\<close> block of \<open>sendMessage\<close>. The result of the update of \<open>sessions\<close> is not
  looked at; \<open>fetchMessages()\<close> is started without \<open>await\<close>, and its effects are
  disjoint from those of the statements after it, so it is run in place.
\<close>

definition sendMessage_try ::
  "chat_closure \<Rightarrow> jsstring \<Rightarrow> message_type \<Rightarrow> jsstring option \<Rightarrow> env \<Rightarrow> chat_view world
     \<Rightarrow> chat_view world completion" where
  "sendMessage_try cl content' messageType imageData e w =
     (let w1 = request GetUser w in
      case auth_user e of
        None \<Rightarrow> Throw w1
      | Some uid \<Rightarrow>
          let w2 = request (InvokeGeminiChat
                     \<lparr>b_message = content', b_sessionId = c_sessionId cl,
                      b_messageType = messageType, b_imageData = imageData,
                      b_systemPrompt = c_systemPrompt cl\<rparr>) w1 in
          (case ai e of
            Error \<Rightarrow> Throw w2
          | Data reply \<Rightarrow>
              let stored = or_else content' (js ''Image uploaded'');
                  w3 = request (InsertChatMessage (c_sessionId cl) uid stored messageType reply) w2 in
              if insert_error e then Throw w3
              else
                let w4 = w3\<lparr>db := insert_chat_message e (c_sessionId cl) uid stored messageType
                                     reply (db w3)\<rparr>;
                    w5 = request (UpdateSession (c_sessionId cl) (date_now e)) w4;
                    w6 = (if update_error e then w5
                          else w5\<lparr>db := update_session e (Some uid) (c_sessionId cl)
                                            (date_now e) (db w5)\<rparr>);
                    w7 = setCurrentMessage [] w6;
                    w8 = fetchMessages cl e w7
                in Normal (show_toast message_sent w8)))"

text \<open>The \<open>catch\<close> and \<open>finally\<close> blocks of \<open>sendMessage\<close>.\<close>

definition sendMessage_catch :: "chat_view world \<Rightarrow> chat_view world" where
  "sendMessage_catch w = show_toast failed_to_send (console_error (js ''Error sending message:'') w)"

definition sendMessage_rest ::
  "chat_closure \<Rightarrow> jsstring \<Rightarrow> message_type \<Rightarrow> jsstring option \<Rightarrow> env \<Rightarrow> chat_view world
     \<Rightarrow> chat_view world" where
  "sendMessage_rest cl content' messageType imageData e w =
     setLoading False
       (case sendMessage_try cl content' messageType imageData e w of
          Throw w' \<Rightarrow> sendMessage_catch w'
        | Normal w' \<Rightarrow> w')"

text \<open>\<open>sendMessage\<close> run from its first line to its last.\<close>

definition sendMessage ::
  "chat_closure \<Rightarrow> jsstring \<Rightarrow> message_type \<Rightarrow> jsstring option \<Rightarrow> env \<Rightarrow> chat_view world
     \<Rightarrow> chat_view world" where
  "sendMessage cl content' messageType imageData e w =
     (case sendMessage_begin cl content' messageType imageData w of
        None \<Rightarrow> w
      | Some w1 \<Rightarrow> sendMessage_rest cl content' messageType imageData e w1)"

subsection \<open>Calls in flight\<close>

text \<open>
  A call of \<open>sendMessage\<close> that has passed its guard and waits at an \<open>await\<close> is in
  flight; other callbacks of the event loop run meanwhile.
\<close>

record suspended =
  sp_closure :: chat_closure
  sp_content :: jsstring
  sp_messageType :: message_type
  sp_imageData :: "jsstring option"

record chat_instance =
  inst_world :: "chat_view world"
  in_flight :: "suspended list"

definition start_send ::
  "chat_closure \<Rightarrow> jsstring \<Rightarrow> message_type \<Rightarrow> jsstring option \<Rightarrow> chat_instance \<Rightarrow> chat_instance" where
  "start_send cl content' messageType imageData inst =
     (case sendMessage_begin cl content' messageType imageData (inst_world inst) of
        None \<Rightarrow> inst
      | Some w1 \<Rightarrow>
          inst\<lparr>inst_world := w1,
               in_flight := in_flight inst @
                 [\<lparr>sp_closure = cl, sp_content = content', sp_messageType = messageType,
                   sp_imageData = imageData\<rparr>]\<rparr>)"

text \<open>The oldest call in flight runs to its end.\<close>

definition resume_send :: "env \<Rightarrow> chat_instance \<Rightarrow> chat_instance" where
  "resume_send e inst =
     (case in_flight inst of
        [] \<Rightarrow> inst
      | p # ps \<Rightarrow>
          inst\<lparr>inst_world := sendMessage_rest (sp_closure p) (sp_content p) (sp_messageType p)
                                (sp_imageData p) e (inst_world inst),
               in_flight := ps\<rparr>)"

text \<open>
  A clipboard item: its MIME type and what \<open>getAsFile()\<close> gives, a file (here the data
  URL that \<open>readAsDataURL\<close> produces for it) or \<open>null\<close>.
\<close>

record clipboard_item =
  item_type :: jsstring
  item_file :: "jsstring option"

text \<open>
  \<open>handlePasteImage\<close>: the loop starts one \<open>FileReader\<close> for each image item that has a
  file; the result is the data URLs the readers will deliver, in order.
\<close>

definition handlePasteImage :: "clipboard_item list option \<Rightarrow> jsstring list" where
  "handlePasteImage items =
     (case items of
        None \<Rightarrow> []
      | Some its \<Rightarrow>
          concat (map (\<lambda>item.
            if startsWith (item_type item) (js ''image/'')
            then (case item_file item of None \<Rightarrow> [] | Some url \<Rightarrow> [url])
            else []) its))"

text \<open>
  \<open>reader.onload\<close> as set by \<open>handlePasteImage\<close> in the render \<open>cl\<close>: it cuts the
  base64 part out of the data URL (\<open>split(',')[1]\<close>) and calls the \<open>sendMessage\<close> of that
  same render.
\<close>

definition reader_onload :: "chat_closure \<Rightarrow> jsstring \<Rightarrow> chat_instance \<Rightarrow> chat_instance" where
  "reader_onload cl url inst = start_send cl [] Image (index (split 0x2C url) 1) inst"

text \<open>A paste event whose readers all deliver before any network call answers.\<close>

definition paste_event :: "chat_closure \<Rightarrow> clipboard_item list option \<Rightarrow> chat_instance \<Rightarrow> chat_instance" where
  "paste_event cl items inst = fold (reader_onload cl) (handlePasteImage items) inst"

subsection \<open>The calls of \<open>sendMessage\<close>\<close>

text \<open>
  \<open>sendMessage\<close> is local to the component and is called in five places: the Enter
  key and the Send button pass the text of the input and no image; the recorder's
  \<open>onstop\<close> passes the transcript and no image; the \<open>onload\<close> callbacks of
  \<open>handleImageUpload\<close> and \<open>handlePasteImage\<close> pass the empty string and the base64
  part of the data URL.
\<close>

datatype entry = Submit | Transcript jsstring | ImageRead jsstring

definition entry_args :: "chat_closure \<Rightarrow> entry \<Rightarrow> jsstring \<times> message_type \<times> jsstring option" where
  "entry_args cl en =
     (case en of
        Submit \<Rightarrow> (c_currentMessage cl, Text, None)
      | Transcript t \<Rightarrow> (t, Voice, None)
      | ImageRead url \<Rightarrow> ([], Image, index (split 0x2C url) 1))"

section \<open>The session directory (\<open>SessionDashboard\<close>)\<close>

record dashboard_view =
  d_sessions :: "session list"
  d_loading :: bool
  d_sessionName :: jsstring
  d_systemPrompt :: jsstring
  createDialogOpen :: bool
  creating :: bool

definition default_prompt :: jsstring where
  "default_prompt = js ''You are a helpful study assistant. Analyze the content provided and give clear, educational explanations.''"

definition initial_dashboard_view :: dashboard_view where
  "initial_dashboard_view =
     \<lparr>d_sessions = [], d_loading = True, d_sessionName = [], d_systemPrompt = default_prompt,
      createDialogOpen = False, creating = False\<rparr>"

definition failed_to_load :: toast where
  "failed_to_load =
     \<lparr>title = js ''Error'', description = js ''Failed to load sessions'',
      variant = Destructive\<rparr>"

definition name_required :: toast where
  "name_required =
     \<lparr>title = js ''Session name required'',
      description = js ''Please enter a name for your study session'',
      variant = Destructive\<rparr>"

definition session_created :: "jsstring \<Rightarrow> toast" where
  "session_created n =
     \<lparr>title = js ''Session created'', description = n @ js '' is ready for studying'',
      variant = Default\<rparr>"

definition failed_to_create :: toast where
  "failed_to_create =
     \<lparr>title = js ''Error'', description = js ''Failed to create session'',
      variant = Destructive\<rparr>"

text \<open>\<open>fetchSessions\<close>: one select, descending by \<open>updated_at\<close>.\<close>

definition fetchSessions :: "env \<Rightarrow> dashboard_view world \<Rightarrow> dashboard_view world" where
  "fetchSessions e w =
     (let w1 = request (SelectSessions False) w;
          w2 = (if select_error e
                then show_toast failed_to_load (console_error (js ''Error fetching sessions:'') w1)
                else w1\<lparr>view := (view w1)\<lparr>d_sessions := select_sessions (db w1) (auth_user e) False\<rparr>\<rparr>)
      in w2\<lparr>view := (view w2)\<lparr>d_loading := False\<rparr>\<rparr>)"

text \<open>
  The \<open>try\<close> block of \<open>createSession\<close>. The handler is only ever called by the button of
  the current render, so the \<open>sessionName\<close> and \<open>systemPrompt\<close> it reads are the values
  of the two input fields at the click.
\<close>

definition createSession_try :: "env \<Rightarrow> dashboard_view world \<Rightarrow> dashboard_view world completion" where
  "createSession_try e w =
     (let n = d_sessionName (view w); p = d_systemPrompt (view w);
          w1 = request GetUser w in
      case auth_user e of
        None \<Rightarrow> Throw w1
      | Some uid \<Rightarrow>
          let w2 = request (InsertSession n p uid) w1 in
          if insert_error e then Throw w2
          else
            let w3 = w2\<lparr>db := insert_session e n p uid (db w2)\<rparr>;
                w4 = show_toast (session_created n) w3;
                w5 = w4\<lparr>view := (view w4)\<lparr>d_sessionName := [], d_systemPrompt := default_prompt,
                                            createDialogOpen := False\<rparr>\<rparr>
            in Normal (fetchSessions e w5))"

definition createSession :: "env \<Rightarrow> dashboard_view world \<Rightarrow> dashboard_view world" where
  "createSession e w =
     (if falsy (trim (d_sessionName (view w))) then show_toast name_required w
      else
        let w0 = w\<lparr>view := (view w)\<lparr>creating := True\<rparr>\<rparr>;
            w' = (case createSession_try e w0 of
                    Throw w1 \<Rightarrow>
                      show_toast failed_to_create
                        (console_error (js ''Error creating session:'') w1)
                  | Normal w1 \<Rightarrow> w1)
        in w'\<lparr>view := (view w')\<lparr>creating := False\<rparr>\<rparr>)"

section \<open>Concrete situations\<close>

text \<open>
  One user, one session with one stored exchange, and a backend in which every call
  succeeds and the AI answers "2x".
\<close>

definition ex_session :: session where
  "ex_session =
     \<lparr>s_id = js ''s1'', s_user_id = js ''u1'', s_name = js ''Algebra Review'',
      s_system_prompt = Some default_prompt, s_created_at = 1, s_updated_at = 1\<rparr>"

definition ex_message :: chat_message where
  "ex_message =
     \<lparr>id = js ''m0'', session_id = js ''s1'', user_id = js ''u1'', content = js ''hello'',
      message_type = Text, ai_response = Some (js ''hi there''), image_url = None,
      created_at = 2\<rparr>"

definition ex_backend :: backend where
  "ex_backend = \<lparr>chat_messages = [ex_message], sessions = [ex_session]\<rparr>"

definition ex_env :: env where
  "ex_env =
     \<lparr>auth_user = Some (js ''u1''), ai = Data (js ''2x''), insert_error = False,
      update_error = False, select_error = False, gen_random_uuid = js ''m1'', now = 5,
      date_now = 5\<rparr>"

text \<open>The conversation view of that session, idle, with a question typed into the input.\<close>

definition ex_chat :: "chat_view world" where
  "ex_chat =
     \<lparr>view = \<lparr>messages = [ex_message], currentMessage = js ''x^2?'', loading = False,
              sessionName = js ''Algebra Review'', systemPrompt = default_prompt,
              isRecording = False\<rparr>,
      db = ex_backend, toasts = [], calls = [], console = []\<rparr>"

definition ex_closure :: chat_closure where
  "ex_closure = render (js ''s1'') (view ex_chat)"

definition ex_idle :: chat_instance where
  "ex_idle = \<lparr>inst_world = ex_chat, in_flight = []\<rparr>"

text \<open>The same view while a send is running.\<close>

definition ex_busy :: "chat_view world" where
  "ex_busy = setLoading True ex_chat"

text \<open>
  The same view before its messages are loaded, over a table that holds a later
  exchange in front of the earlier one.
\<close>

definition ex_later_message :: chat_message where
  "ex_later_message =
     \<lparr>id = js ''m2'', session_id = js ''s1'', user_id = js ''u1'', content = js ''later'',
      message_type = Voice, ai_response = Some (js ''ok''), image_url = None,
      created_at = 9\<rparr>"

definition ex_chat_unsorted :: "chat_view world" where
  "ex_chat_unsorted =
     ex_chat\<lparr>view := (view ex_chat)\<lparr>messages := []\<rparr>,
             db := ex_backend\<lparr>chat_messages := [ex_later_message, ex_message]\<rparr>\<rparr>"

text \<open>Two PNG images on the clipboard.\<close>

definition ex_url1 :: jsstring where
  "ex_url1 = js ''data:image/png;base64,AAAA''"

definition ex_url2 :: jsstring where
  "ex_url2 = js ''data:image/png;base64,BBBB''"

definition ex_clipboard :: "clipboard_item list option" where
  "ex_clipboard =
     Some [\<lparr>item_type = js ''image/png'', item_file = Some ex_url1\<rparr>,
           \<lparr>item_type = js ''image/png'', item_file = Some ex_url2\<rparr>]"

text \<open>
  The directory with the creation dialog open: the name typed with a space on each
  side, the instruction field as pre-filled, and the same with the field cleared.
\<close>

definition ex_dashboard :: "dashboard_view world" where
  "ex_dashboard =
     \<lparr>view = \<lparr>d_sessions = [ex_session], d_loading = False, d_sessionName = js '' Physics '',
              d_systemPrompt = default_prompt, createDialogOpen = True, creating = False\<rparr>,
      db = ex_backend, toasts = [], calls = [], console = []\<rparr>"

definition ex_dashboard_cleared :: "dashboard_view world" where
  "ex_dashboard_cleared = ex_dashboard\<lparr>view := (view ex_dashboard)\<lparr>d_systemPrompt := []\<rparr>\<rparr>"

definition ex_dashboard_blank :: "dashboard_view world" where
  "ex_dashboard_blank = ex_dashboard\<lparr>view := (view ex_dashboard)\<lparr>d_sessionName := [0x20, 0x9]\<rparr>\<rparr>"

section \<open>Properties\<close>

subsection \<open>Auxiliary facts\<close>

lemmas effects = show_toast_def request_def console_error_def setMessages_def
  setCurrentMessage_def setLoading_def

lemma js_simps: "js [] = []" "js (c # s) = of_nat (of_char c) # js s"
  by (simp_all add: js_def)

lemma default_prompt_nonempty: "default_prompt \<noteq> []"
  by (simp add: default_prompt_def js_def)

lemma sendMessage_blocked:
  "send_guard cl c img \<Longrightarrow> sendMessage cl c k img e w = w"
  by (simp add: sendMessage_def sendMessage_begin_def)

lemma sendMessage_started:
  "\<not> send_guard cl c img \<Longrightarrow>
     sendMessage cl c k img e w = sendMessage_rest cl c k img e (setLoading True w)"
  by (simp add: sendMessage_def sendMessage_begin_def)

lemma sendMessage_try_ai_error:
  "auth_user e = Some uid \<Longrightarrow> ai e = Error \<Longrightarrow>
   sendMessage_try cl c k img e w =
     Throw (request (InvokeGeminiChat
              \<lparr>b_message = c, b_sessionId = c_sessionId cl, b_messageType = k,
               b_imageData = img, b_systemPrompt = c_systemPrompt cl\<rparr>) (request GetUser w))"
  by (simp add: sendMessage_try_def)

lemma sendMessage_try_success:
  "auth_user e = Some uid \<Longrightarrow> ai e = Data reply \<Longrightarrow> \<not> insert_error e \<Longrightarrow>
   sendMessage_try cl c k img e w =
     Normal (show_toast message_sent (fetchMessages cl e (setCurrentMessage []
       ((if update_error e then (\<lambda>x. x)
         else (\<lambda>x. x\<lparr>db := update_session e (Some uid) (c_sessionId cl) (date_now e) (db x)\<rparr>))
        (request (UpdateSession (c_sessionId cl) (date_now e))
          ((request (InsertChatMessage (c_sessionId cl) uid (or_else c (js ''Image uploaded'')) k reply)
             (request (InvokeGeminiChat
              \<lparr>b_message = c, b_sessionId = c_sessionId cl, b_messageType = k,
               b_imageData = img, b_systemPrompt = c_systemPrompt cl\<rparr>) (request GetUser w)))
           \<lparr>db := insert_chat_message e (c_sessionId cl) uid (or_else c (js ''Image uploaded''))
                    k reply (db w)\<rparr>))))))"
  by (simp add: sendMessage_try_def Let_def effects)

lemma fetchMessages_frame [simp]:
  "db (fetchMessages cl e w) = db w"
  "toasts (fetchMessages cl e w) = toasts w"
  "currentMessage (view (fetchMessages cl e w)) = currentMessage (view w)"
  "loading (view (fetchMessages cl e w)) = loading (view w)"
  by (simp_all add: fetchMessages_def Let_def effects)

lemma fetchSessions_frame [simp]:
  "db (fetchSessions e w) = db w"
  "d_sessionName (view (fetchSessions e w)) = d_sessionName (view w)"
  "d_systemPrompt (view (fetchSessions e w)) = d_systemPrompt (view w)"
  by (simp_all add: fetchSessions_def Let_def effects)

lemma createSession_success:
  assumes "trim (d_sessionName (view w)) \<noteq> []" "auth_user e = Some uid" "\<not> insert_error e"
  shows "db (createSession e w) =
           insert_session e (d_sessionName (view w)) (d_systemPrompt (view w)) uid (db w)"
    and "d_systemPrompt (view (createSession e w)) = default_prompt"
  using assms
  by (simp_all add: createSession_def createSession_try_def falsy_def Let_def effects)

text \<open>
  Starting a call on an idle instance and letting it run to its end is \<open>sendMessage\<close>
  run in one piece.
\<close>

lemma start_then_resume:
  "resume_send e (start_send cl c k img \<lparr>inst_world = w, in_flight = []\<rparr>) =
     \<lparr>inst_world = sendMessage cl c k img e w, in_flight = []\<rparr>"
  by (simp add: resume_send_def start_send_def sendMessage_def split: option.splits)

lemmas ex_defs = ex_closure_def ex_chat_def render_def ex_env_def ex_backend_def
lemmas str_defs = js_simps trim_def isWhiteSpace_def falsy_def falsy_opt_def

lemma sendMessage_success_rows:
  assumes "\<not> send_guard cl c img" "auth_user e = Some uid" "ai e = Data reply"
    "\<not> insert_error e"
  shows "chat_messages (db (sendMessage cl c k img e w)) = chat_messages (db w) @
     [\<lparr>id = gen_random_uuid e, session_id = c_sessionId cl, user_id = uid,
       content = or_else c (js ''Image uploaded''), message_type = k,
       ai_response = Some reply, image_url = None, created_at = now e\<rparr>]"
  using assms
  by (simp add: sendMessage_started sendMessage_rest_def sendMessage_try_success effects
      insert_chat_message_def update_session_def)

lemma sendMessage_success_toasts:
  assumes "\<not> send_guard cl c img" "auth_user e = Some uid" "ai e = Data reply"
    "\<not> insert_error e"
  shows "toasts (sendMessage cl c k img e w) = toasts w @ [message_sent]"
  using assms
  by (simp add: sendMessage_started sendMessage_rest_def sendMessage_try_success effects)

lemma guard_empty_content:
  "\<not> send_guard cl [] img \<Longrightarrow> \<exists>d. img = Some d \<and> d \<noteq> []"
  by (cases img) (simp_all add: send_guard_def falsy_def falsy_opt_def trim_def)

lemma sendMessage_success_calls:
  assumes "\<not> send_guard cl c img" "auth_user e = Some uid" "ai e = Data reply"
    "\<not> insert_error e"
  shows "calls (sendMessage cl c k img e w) = calls w @
     [GetUser,
      InvokeGeminiChat
        \<lparr>b_message = c, b_sessionId = c_sessionId cl, b_messageType = k,
         b_imageData = img, b_systemPrompt = c_systemPrompt cl\<rparr>,
      InsertChatMessage (c_sessionId cl) uid (or_else c (js ''Image uploaded'')) k reply,
      UpdateSession (c_sessionId cl) (date_now e),
      SelectChatMessages (c_sessionId cl) True]"
  using assms
  by (simp add: sendMessage_started sendMessage_rest_def sendMessage_try_success effects
      fetchMessages_def Let_def)

text \<open>
  A call that reads a set \<open>loading\<close>, or whose content trims to the empty string while
  its image is \<open>undefined\<close> or empty, returns at once and leaves everything as it was.
\<close>

lemma send_guard_noop:
  assumes "(trim c = [] \<and> (img = None \<or> img = Some [])) \<or> c_loading cl"
  shows "sendMessage cl c k img e w = w"
  using assms by (auto simp: sendMessage_blocked send_guard_def falsy_def falsy_opt_def)

text \<open>Every call the component makes passes no image or the empty content.\<close>

lemma entry_args_shape:
  "entry_args cl en = (c, k, img) \<Longrightarrow> img = None \<or> c = []"
  by (cases en) (auto simp: entry_args_def)

subsection \<open>Sending a message\<close>

text \<open>
  C1. If the call of the AI function inside \<open>sendMessage\<close> fails (the guard was passed,
  a user is signed in, the function reports an error), then the backend is as before, so
  no row was inserted, and no insert was even requested; the busy flag is cleared; the
  text in the input and the message list are as before; an error toast is shown. This
  holds for every content, kind and image argument.
\<close>

theorem send_ai_failure:
  fixes k w
  assumes "\<not> send_guard cl c img" "auth_user e = Some uid" "ai e = Error"
  defines "w' \<equiv> sendMessage cl c k img e w"
  shows "db w' = db w \<and> loading (view w') = False \<and>
     currentMessage (view w') = currentMessage (view w) \<and>
     messages (view w') = messages (view w) \<and>
     calls w' = calls w @ [GetUser, InvokeGeminiChat
              \<lparr>b_message = c, b_sessionId = c_sessionId cl, b_messageType = k,
               b_imageData = img, b_systemPrompt = c_systemPrompt cl\<rparr>] \<and>
     toasts w' = toasts w @ [failed_to_send]"
  unfolding w'_def using assms(1-3)
  by (simp add: sendMessage_started sendMessage_rest_def sendMessage_try_ai_error
      sendMessage_catch_def effects)

text \<open>
  C1 at a concrete input: the typed question is sent, the AI function fails; the stored
  exchange and the typed text are still there.
\<close>

theorem send_ai_failure_witness:
  "\<not> send_guard ex_closure (js ''x^2?'') None \<and>
   auth_user (ex_env\<lparr>ai := Error\<rparr>) = Some (js ''u1'') \<and> ai (ex_env\<lparr>ai := Error\<rparr>) = Error \<and>
   db (sendMessage ex_closure (js ''x^2?'') Text None (ex_env\<lparr>ai := Error\<rparr>) ex_chat) = ex_backend \<and>
   loading (view (sendMessage ex_closure (js ''x^2?'') Text None (ex_env\<lparr>ai := Error\<rparr>) ex_chat)) = False \<and>
   currentMessage (view (sendMessage ex_closure (js ''x^2?'') Text None (ex_env\<lparr>ai := Error\<rparr>) ex_chat)) = js ''x^2?'' \<and>
   messages (view (sendMessage ex_closure (js ''x^2?'') Text None (ex_env\<lparr>ai := Error\<rparr>) ex_chat)) = [ex_message] \<and>
   toasts (sendMessage ex_closure (js ''x^2?'') Text None (ex_env\<lparr>ai := Error\<rparr>) ex_chat) = [failed_to_send]"
proof -
  have g: "\<not> send_guard ex_closure (js ''x^2?'') None"
    by (simp add: send_guard_def ex_defs str_defs)
  have u: "auth_user (ex_env\<lparr>ai := Error\<rparr>) = Some (js ''u1'')" by (simp add: ex_env_def)
  have a: "ai (ex_env\<lparr>ai := Error\<rparr>) = Error" by simp
  show ?thesis
    using g u a send_ai_failure [OF g u a, of Text ex_chat] by (simp add: ex_chat_def)
qed

text \<open>
  C2. The claim asks that a call made while the busy flag of the view is set is a
  no-op. The code tests the \<open>loading\<close> of the render its handler comes from instead.
  After the first image of a paste has started its send the view is busy; the call for
  the second image, made from the same render, is then no no-op: it calls the AI
  function and inserts a row.
\<close>

theorem stale_send_not_noop:
  "inst_world (reader_onload ex_closure ex_url1 ex_idle) = ex_busy \<and>
   loading (view ex_busy) \<and>
   index (split 0x2C ex_url2) 1 = Some (js ''BBBB'') \<and>
   calls (sendMessage ex_closure [] Image (Some (js ''BBBB'')) ex_env ex_busy) =
     [GetUser,
      InvokeGeminiChat
        \<lparr>b_message = [], b_sessionId = js ''s1'', b_messageType = Image,
         b_imageData = Some (js ''BBBB''), b_systemPrompt = default_prompt\<rparr>,
      InsertChatMessage (js ''s1'') (js ''u1'') (js ''Image uploaded'') Image (js ''2x''),
      UpdateSession (js ''s1'') 5,
      SelectChatMessages (js ''s1'') True] \<and>
   chat_messages (db (sendMessage ex_closure [] Image (Some (js ''BBBB'')) ex_env ex_busy)) =
     [ex_message,
      \<lparr>id = js ''m1'', session_id = js ''s1'', user_id = js ''u1'',
       content = js ''Image uploaded'', message_type = Image, ai_response = Some (js ''2x''),
       image_url = None, created_at = 5\<rparr>]"
proof -
  have s1: "index (split 0x2C ex_url1) 1 = Some (js ''AAAA'')"
    by (simp add: ex_url1_def js_simps index_def)
  have s2: "index (split 0x2C ex_url2) 1 = Some (js ''BBBB'')"
    by (simp add: ex_url2_def js_simps index_def)
  have g1: "\<not> send_guard ex_closure [] (Some (js ''AAAA''))"
    and g2: "\<not> send_guard ex_closure [] (Some (js ''BBBB''))"
    by (simp_all add: send_guard_def ex_defs str_defs)
  have r: "reader_onload ex_closure ex_url1 ex_idle = start_send ex_closure [] Image (Some (js ''AAAA'')) ex_idle"
    by (simp only: reader_onload_def s1)
  have b: "inst_world (reader_onload ex_closure ex_url1 ex_idle) = ex_busy"
    unfolding r using g1
    by (simp add: start_send_def sendMessage_begin_def ex_idle_def ex_busy_def)
  have l: "loading (view ex_busy)"
    by (simp add: ex_busy_def setLoading_def)
  have u: "auth_user ex_env = Some (js ''u1'')" and a: "ai ex_env = Data (js ''2x'')"
    and i: "\<not> insert_error ex_env"
    by (simp_all add: ex_env_def)
  have c: "calls (sendMessage ex_closure [] Image (Some (js ''BBBB'')) ex_env ex_busy) =
     [GetUser,
      InvokeGeminiChat
        \<lparr>b_message = [], b_sessionId = js ''s1'', b_messageType = Image,
         b_imageData = Some (js ''BBBB''), b_systemPrompt = default_prompt\<rparr>,
      InsertChatMessage (js ''s1'') (js ''u1'') (js ''Image uploaded'') Image (js ''2x''),
      UpdateSession (js ''s1'') 5,
      SelectChatMessages (js ''s1'') True]"
    using sendMessage_success_calls [OF g2 u a i, of Image ex_busy]
    by (simp add: ex_defs ex_busy_def setLoading_def or_else_def falsy_def)
  have d: "chat_messages (db (sendMessage ex_closure [] Image (Some (js ''BBBB'')) ex_env ex_busy)) =
     [ex_message,
      \<lparr>id = js ''m1'', session_id = js ''s1'', user_id = js ''u1'',
       content = js ''Image uploaded'', message_type = Image, ai_response = Some (js ''2x''),
       image_url = None, created_at = 5\<rparr>]"
    using sendMessage_success_rows [OF g2 u a i, of Image ex_busy]
    by (simp add: ex_defs ex_busy_def setLoading_def or_else_def falsy_def)
  from b l s2 c d show ?thesis by (intro conjI)
qed

text \<open>
  C3. Every call the component makes passes no image or the empty content. For every
  such send that succeeds, the inserted row stores the content as passed, except that
  when the content is blank (trims to the empty string) and an image was supplied it
  stores "Image uploaded"; the stored kind is the kind passed in and the AI's reply is
  stored in the same row.
\<close>

theorem send_stores_row:
  assumes "img = None \<or> c = []"
    and "\<not> send_guard cl c img" "auth_user e = Some uid" "ai e = Data reply"
    and "\<not> insert_error e"
  shows "chat_messages (db (sendMessage cl c k img e w)) = chat_messages (db w) @
     [\<lparr>id = gen_random_uuid e, session_id = c_sessionId cl, user_id = uid,
       content = (if trim c = [] \<and> img \<noteq> None then js ''Image uploaded'' else c),
       message_type = k, ai_response = Some reply, image_url = None, created_at = now e\<rparr>]"
proof -
  have "or_else c (js ''Image uploaded'') =
      (if trim c = [] \<and> img \<noteq> None then js ''Image uploaded'' else c)"
  proof (cases "c = []")
    case True
    with assms(2) guard_empty_content [of cl img] show ?thesis
      by (auto simp: or_else_def falsy_def trim_def)
  next
    case False
    with assms(1) have n: "img = None" by simp
    with assms(2) have "trim c \<noteq> []"
      by (simp add: send_guard_def falsy_def falsy_opt_def)
    with False n show ?thesis by (simp add: or_else_def falsy_def)
  qed
  with sendMessage_success_rows [OF assms(2-5), of k w] show ?thesis by simp
qed

text \<open>
  C3 at concrete inputs: an image uploaded without caption is stored with the
  placeholder and kind image, and the typed question is stored as typed with kind text,
  each next to the reply.
\<close>

theorem send_stores_row_witness:
  "entry_args ex_closure (ImageRead ex_url1) = ([], Image, Some (js ''AAAA'')) \<and>
   entry_args ex_closure Submit = (js ''x^2?'', Text, None) \<and>
   \<not> send_guard ex_closure [] (Some (js ''AAAA'')) \<and>
   \<not> send_guard ex_closure (js ''x^2?'') None \<and>
   auth_user ex_env = Some (js ''u1'') \<and>
   ai ex_env = Data (js ''2x'') \<and> \<not> insert_error ex_env \<and>
   chat_messages (db (sendMessage ex_closure [] Image (Some (js ''AAAA'')) ex_env ex_chat)) =
     [ex_message,
      \<lparr>id = js ''m1'', session_id = js ''s1'', user_id = js ''u1'',
       content = js ''Image uploaded'', message_type = Image, ai_response = Some (js ''2x''),
       image_url = None, created_at = 5\<rparr>] \<and>
   chat_messages (db (sendMessage ex_closure (js ''x^2?'') Text None ex_env ex_chat)) =
     [ex_message,
      \<lparr>id = js ''m1'', session_id = js ''s1'', user_id = js ''u1'',
       content = js ''x^2?'', message_type = Text, ai_response = Some (js ''2x''),
       image_url = None, created_at = 5\<rparr>]"
proof -
  have s1: "index (split 0x2C ex_url1) 1 = Some (js ''AAAA'')"
    by (simp add: ex_url1_def js_simps index_def)
  have e1: "entry_args ex_closure (ImageRead ex_url1) = ([], Image, Some (js ''AAAA''))"
    unfolding entry_args_def entry.case s1 ..
  have e2: "entry_args ex_closure Submit = (js ''x^2?'', Text, None)"
    by (simp add: entry_args_def ex_defs)
  have g1: "\<not> send_guard ex_closure [] (Some (js ''AAAA''))"
    and g2: "\<not> send_guard ex_closure (js ''x^2?'') None"
    by (simp_all add: send_guard_def ex_defs str_defs)
  have u: "auth_user ex_env = Some (js ''u1'')" and a: "ai ex_env = Data (js ''2x'')"
    and i: "\<not> insert_error ex_env"
    by (simp_all add: ex_env_def)
  have t: "trim (js ''x^2?'') \<noteq> []" by (simp add: str_defs)
  have r1: "chat_messages (db (sendMessage ex_closure [] Image (Some (js ''AAAA'')) ex_env ex_chat)) =
     [ex_message,
      \<lparr>id = js ''m1'', session_id = js ''s1'', user_id = js ''u1'',
       content = js ''Image uploaded'', message_type = Image, ai_response = Some (js ''2x''),
       image_url = None, created_at = 5\<rparr>]"
    using send_stores_row [OF _ g1 u a i, of Image ex_chat]
    by (simp add: ex_defs trim_def)
  have r2: "chat_messages (db (sendMessage ex_closure (js ''x^2?'') Text None ex_env ex_chat)) =
     [ex_message,
      \<lparr>id = js ''m1'', session_id = js ''s1'', user_id = js ''u1'',
       content = js ''x^2?'', message_type = Text, ai_response = Some (js ''2x''),
       image_url = None, created_at = 5\<rparr>]"
    using send_stores_row [OF _ g2 u a i, of Text ex_chat]
    by (simp add: ex_defs)
  from e1 e2 g1 g2 u a i r1 r2 show ?thesis by (intro conjI)
qed

text \<open>
  C4. When the insert has succeeded and the update of the session's timestamp reports
  an error, the inserted row stays in the table, the only toast shown is the success
  toast, the busy flag is cleared and the input is emptied as on full success.
\<close>

theorem send_touch_failure:
  fixes k w
  assumes "\<not> send_guard cl c img" "auth_user e = Some uid" "ai e = Data reply"
    "\<not> insert_error e" "update_error e"
  defines "w' \<equiv> sendMessage cl c k img e w"
  shows "chat_messages (db w') = chat_messages (db w) @
     [\<lparr>id = gen_random_uuid e, session_id = c_sessionId cl, user_id = uid,
       content = or_else c (js ''Image uploaded''), message_type = k,
       ai_response = Some reply, image_url = None, created_at = now e\<rparr>]
     \<and> sessions (db w') = sessions (db w)
     \<and> toasts w' = toasts w @ [message_sent] \<and> variant message_sent = Default
     \<and> loading (view w') = False \<and> currentMessage (view w') = []"
  unfolding w'_def using assms(1-5)
  by (simp add: sendMessage_success_rows sendMessage_success_toasts)
     (simp add: sendMessage_started sendMessage_rest_def sendMessage_try_success effects
      insert_chat_message_def message_sent_def)

text \<open>
  C4 at a concrete input: the typed question is sent, only the timestamp update fails;
  the new row is stored beside the old one and the single toast is "Message sent".
\<close>

theorem send_touch_failure_witness:
  "\<not> send_guard ex_closure (js ''x^2?'') None \<and>
   auth_user (ex_env\<lparr>update_error := True\<rparr>) = Some (js ''u1'') \<and>
   ai (ex_env\<lparr>update_error := True\<rparr>) = Data (js ''2x'') \<and>
   \<not> insert_error (ex_env\<lparr>update_error := True\<rparr>) \<and>
   update_error (ex_env\<lparr>update_error := True\<rparr>) \<and>
   chat_messages (db (sendMessage ex_closure (js ''x^2?'') Text None
       (ex_env\<lparr>update_error := True\<rparr>) ex_chat)) =
     [ex_message,
      \<lparr>id = js ''m1'', session_id = js ''s1'', user_id = js ''u1'', content = js ''x^2?'',
       message_type = Text, ai_response = Some (js ''2x''), image_url = None,
       created_at = 5\<rparr>] \<and>
   sessions (db (sendMessage ex_closure (js ''x^2?'') Text None
       (ex_env\<lparr>update_error := True\<rparr>) ex_chat)) = [ex_session] \<and>
   toasts (sendMessage ex_closure (js ''x^2?'') Text None
       (ex_env\<lparr>update_error := True\<rparr>) ex_chat) = [message_sent]"
proof -
  have g: "\<not> send_guard ex_closure (js ''x^2?'') None"
    by (simp add: send_guard_def ex_defs str_defs)
  have u: "auth_user (ex_env\<lparr>update_error := True\<rparr>) = Some (js ''u1'')"
    and a: "ai (ex_env\<lparr>update_error := True\<rparr>) = Data (js ''2x'')"
    and i: "\<not> insert_error (ex_env\<lparr>update_error := True\<rparr>)"
    and t: "update_error (ex_env\<lparr>update_error := True\<rparr>)"
    by (simp_all add: ex_env_def)
  show ?thesis
    using g u a i t send_touch_failure [OF g u a i t, of Text ex_chat]
    by (simp add: ex_defs or_else_def str_defs)
qed

text \<open>
  C5. The claim asks that no second send starts while one is in flight. The code
  does otherwise when two images are pasted at once: both \<open>onload\<close> callbacks call the
  \<open>sendMessage\<close> of the render in which \<open>loading\<close> was false. After the first callback
  the busy flag is set and one call is in flight; the second callback passes the guard
  all the same, and two calls are in flight.
\<close>

theorem paste_two_images_overlap:
  "\<not> loading (view (inst_world ex_idle)) \<and> in_flight ex_idle = [] \<and>
   handlePasteImage ex_clipboard = [ex_url1, ex_url2] \<and>
   loading (view (inst_world (reader_onload ex_closure ex_url1 ex_idle))) \<and>
   map sp_imageData (in_flight (reader_onload ex_closure ex_url1 ex_idle)) =
     [Some (js ''AAAA'')] \<and>
   map sp_imageData (in_flight (paste_event ex_closure ex_clipboard ex_idle)) =
     [Some (js ''AAAA''), Some (js ''BBBB'')]"
proof -
  have h: "handlePasteImage ex_clipboard = [ex_url1, ex_url2]"
    by (simp add: handlePasteImage_def ex_clipboard_def startsWith_def ex_url1_def
        ex_url2_def js_simps)
  have s1: "index (split 0x2C ex_url1) 1 = Some (js ''AAAA'')"
    by (simp add: ex_url1_def js_simps index_def)
  have s2: "index (split 0x2C ex_url2) 1 = Some (js ''BBBB'')"
    by (simp add: ex_url2_def js_simps index_def)
  have r1: "reader_onload ex_closure ex_url1 = start_send ex_closure [] Image (Some (js ''AAAA''))"
    by (rule ext) (simp only: reader_onload_def s1)
  have r2: "reader_onload ex_closure ex_url2 = start_send ex_closure [] Image (Some (js ''BBBB''))"
    by (rule ext) (simp only: reader_onload_def s2)
  have g: "\<not> send_guard ex_closure [] (Some (js ''AAAA''))"
    "\<not> send_guard ex_closure [] (Some (js ''BBBB''))"
    by (simp_all add: send_guard_def ex_defs str_defs)
  show ?thesis
    unfolding h paste_event_def fold_simps r1 r2 using g
    by (simp add: start_send_def sendMessage_begin_def ex_idle_def setLoading_def ex_chat_def)
qed

subsection \<open>Loading the messages\<close>

text \<open>
  C8. Every run of \<open>fetchMessages\<close> sends one select that asks for ascending
  \<open>created_at\<close>. When the select succeeds, the message list becomes the rows returned:
  it is sorted by creation time, and it is the same whatever the list held before.
\<close>

theorem fetch_replaces_sorted:
  "calls (fetchMessages cl e w) = calls w @ [SelectChatMessages (c_sessionId cl) True] \<and>
   (\<not> select_error e \<longrightarrow>
      messages (view (fetchMessages cl e w)) =
        select_chat_messages (db w) (auth_user e) (c_sessionId cl) True \<and>
      sorted (map created_at (messages (view (fetchMessages cl e w)))) \<and>
      (\<forall>old. messages (view (fetchMessages cl e (setMessages old w))) =
          messages (view (fetchMessages cl e w))))"
  by (simp add: fetchMessages_def Let_def effects select_chat_messages_def order_by_def)

text \<open>
  C8 at a concrete input: the table holds the later row first; the view, which showed
  nothing, then shows the earlier row first.
\<close>

theorem fetch_replaces_sorted_witness:
  "\<not> select_error ex_env \<and>
   chat_messages (db ex_chat_unsorted) = [ex_later_message, ex_message] \<and>
   messages (view ex_chat_unsorted) = [] \<and>
   messages (view (fetchMessages ex_closure ex_env ex_chat_unsorted)) =
     [ex_message, ex_later_message] \<and>
   sorted (map created_at (messages (view (fetchMessages ex_closure ex_env ex_chat_unsorted))))"
proof -
  have s: "\<not> select_error ex_env" by (simp add: ex_env_def)
  have r: "select_chat_messages (db ex_chat_unsorted) (auth_user ex_env)
      (c_sessionId ex_closure) True = [ex_message, ex_later_message]"
    by (simp add: select_chat_messages_def order_by_def ex_chat_unsorted_def ex_defs
        ex_later_message_def ex_message_def js_simps)
  show ?thesis
    using s r fetch_replaces_sorted [of ex_closure ex_env ex_chat_unsorted]
    by (simp add: ex_chat_unsorted_def ex_chat_def ex_message_def ex_later_message_def)
qed

text \<open>
  C9. When the select of \<open>fetchMessages\<close> fails, the whole React state of the view, the
  message list in it, is as before (the error is only logged).
\<close>

theorem fetch_failure_keeps_list:
  "select_error e \<Longrightarrow>
     view (fetchMessages cl e w) = view w \<and>
     messages (view (fetchMessages cl e w)) = messages (view w) \<and>
     toasts (fetchMessages cl e w) = toasts w"
  by (simp add: fetchMessages_def Let_def effects)

text \<open>C9 at a concrete input: the stored exchange stays on screen.\<close>

theorem fetch_failure_keeps_list_witness:
  "select_error (ex_env\<lparr>select_error := True\<rparr>) \<and>
   messages (view (fetchMessages ex_closure (ex_env\<lparr>select_error := True\<rparr>) ex_chat)) =
     [ex_message]"
proof -
  have s: "select_error (ex_env\<lparr>select_error := True\<rparr>)" by simp
  show ?thesis
    using s fetch_failure_keeps_list [OF s, of ex_closure ex_chat] by (simp add: ex_chat_def)
qed

subsection \<open>Creating a session\<close>

text \<open>
  C6. When the session name trims to the empty string, \<open>createSession\<close> shows the
  "Session name required" toast and returns: nothing is requested, and the backend and
  the whole React state, the session list in it, are as before.
\<close>

theorem create_blank_name:
  fixes e w
  assumes "trim (d_sessionName (view w)) = []"
  defines "w' \<equiv> createSession e w"
  shows "calls w' = calls w \<and> db w' = db w \<and> view w' = view w \<and>
     d_sessions (view w') = d_sessions (view w) \<and> toasts w' = toasts w @ [name_required]"
  unfolding w'_def using assms(1) by (simp add: createSession_def falsy_def effects)

text \<open>C6 at a concrete input: the name is a space and a tab.\<close>

theorem create_blank_name_witness:
  "trim (d_sessionName (view ex_dashboard_blank)) = [] \<and>
   calls (createSession ex_env ex_dashboard_blank) = [] \<and>
   db (createSession ex_env ex_dashboard_blank) = ex_backend \<and>
   d_sessions (view (createSession ex_env ex_dashboard_blank)) = [ex_session] \<and>
   toasts (createSession ex_env ex_dashboard_blank) = [name_required]"
proof -
  have b: "trim (d_sessionName (view ex_dashboard_blank)) = []"
    by (simp add: ex_dashboard_blank_def ex_dashboard_def trim_def isWhiteSpace_def)
  show ?thesis
    using b create_blank_name [OF b, of ex_env]
    by (simp add: ex_dashboard_blank_def ex_dashboard_def)
qed

text \<open>
  C7, as the claim states it, fails: with the instruction field cleared, the creation
  succeeds and the row stores the empty string, not the default text.
\<close>

theorem create_blank_prompt_counterexample:
  "d_systemPrompt (view ex_dashboard_cleared) = [] \<and>
   map s_system_prompt (sessions (db (createSession ex_env ex_dashboard_cleared))) =
     [Some default_prompt, Some []] \<and>
   default_prompt \<noteq> []"
proof -
  have n: "trim (d_sessionName (view ex_dashboard_cleared)) \<noteq> []"
    by (simp add: ex_dashboard_cleared_def ex_dashboard_def str_defs)
  have u: "auth_user ex_env = Some (js ''u1'')" and i: "\<not> insert_error ex_env"
    by (simp_all add: ex_env_def)
  have d: "db (createSession ex_env ex_dashboard_cleared) =
      insert_session ex_env (d_sessionName (view ex_dashboard_cleared))
        (d_systemPrompt (view ex_dashboard_cleared)) (js ''u1'') (db ex_dashboard_cleared)"
    by (rule createSession_success(1) [OF n u i])
  show ?thesis
    unfolding d using default_prompt_nonempty
    by (simp add: insert_session_def ex_dashboard_cleared_def ex_dashboard_def
        ex_backend_def ex_session_def)
qed

text \<open>
  C7, amended. For every successful \<open>createSession\<close>, the instruction text of the
  inserted row is the value of the instruction field at the call. The field holds the
  default text when the dialog is first shown and again after each successful creation,
  so the default is what is stored when the user leaves the field alone.
\<close>

theorem create_stores_prompt:
  assumes "trim (d_sessionName (view w)) \<noteq> []" "auth_user e = Some uid" "\<not> insert_error e"
  shows "map s_system_prompt (sessions (db (createSession e w))) =
           map s_system_prompt (sessions (db w)) @ [Some (d_systemPrompt (view w))] \<and>
         d_systemPrompt (view (createSession e w)) = default_prompt \<and>
         d_systemPrompt initial_dashboard_view = default_prompt"
  using assms
  by (simp add: createSession_success insert_session_def initial_dashboard_view_def)

text \<open>C7 amended, at a concrete input: the field is left as pre-filled.\<close>

theorem create_stores_prompt_witness:
  "trim (d_sessionName (view ex_dashboard)) \<noteq> [] \<and> auth_user ex_env = Some (js ''u1'') \<and>
   \<not> insert_error ex_env \<and>
   map s_system_prompt (sessions (db (createSession ex_env ex_dashboard))) =
     [Some default_prompt, Some default_prompt]"
proof -
  have n: "trim (d_sessionName (view ex_dashboard)) \<noteq> []"
    by (simp add: ex_dashboard_def str_defs)
  have u: "auth_user ex_env = Some (js ''u1'')" and i: "\<not> insert_error ex_env"
    by (simp_all add: ex_env_def)
  show ?thesis
    using n u i create_stores_prompt [OF n u i]
    by (simp add: ex_dashboard_def ex_backend_def ex_session_def)
qed

text \<open>
  C10. When the name does not trim to the empty string and the creation succeeds, the
  name of the inserted row is the name as typed, white space at its ends included; the
  insert request carries that same string.
\<close>

theorem create_stores_name:
  assumes "trim (d_sessionName (view w)) \<noteq> []" "auth_user e = Some uid" "\<not> insert_error e"
  shows "map s_name (sessions (db (createSession e w))) =
           map s_name (sessions (db w)) @ [d_sessionName (view w)] \<and>
         InsertSession (d_sessionName (view w)) (d_systemPrompt (view w)) uid
           \<in> set (calls (createSession e w))"
  using assms
  by (simp add: createSession_success insert_session_def)
     (simp add: createSession_def createSession_try_def falsy_def Let_def effects
        fetchSessions_def)

text \<open>
  C10 at a concrete input: the name typed is " Physics ", which trims to "Physics", and
  it is stored with both spaces.
\<close>

theorem create_stores_name_witness:
  "trim (d_sessionName (view ex_dashboard)) = js ''Physics'' \<and>
   trim (d_sessionName (view ex_dashboard)) \<noteq> [] \<and> auth_user ex_env = Some (js ''u1'') \<and>
   \<not> insert_error ex_env \<and>
   map s_name (sessions (db (createSession ex_env ex_dashboard))) =
     [js ''Algebra Review'', js '' Physics '']"
proof -
  have t: "trim (d_sessionName (view ex_dashboard)) = js ''Physics''"
    by (simp add: ex_dashboard_def str_defs)
  have n: "trim (d_sessionName (view ex_dashboard)) \<noteq> []"
    by (simp add: t js_simps)
  have u: "auth_user ex_env = Some (js ''u1'')" and i: "\<not> insert_error ex_env"
    by (simp_all add: ex_env_def)
  show ?thesis
    using t n u i create_stores_name [OF n u i]
    by (simp add: ex_dashboard_def ex_backend_def ex_session_def)
qed

end
